theory Spec2Isabelle
  imports Main "HOL-Library.Word"
begin

unbundle bit_operations_syntax

section \<open>The driver of the Mini JavaScript Engine (src/index.js)\<close>

text \<open>
  The file \<^verbatim>\<open>src/index.js\<close> holds the class \<^verbatim>\<open>MiniJSEngine\<close> and the function
  \<^verbatim>\<open>main\<close>. The tokenizer, the parser and the interpreter live in other modules; the
  driver sees them only through the calls it makes, so they are parameters of the
  embedding. Everything the driver does besides returning (writing to the console, calling
  a collaborator, ending the process) is recorded, in order, in a trace.
\<close>

subsection \<open>JavaScript values and thrown errors\<close>

text \<open>
  A value as \<^verbatim>\<open>interpret\<close> may hand it back to the driver. A number is its IEEE 754
  binary64 bit pattern; \<open>JObject\<close> stands for every reference value (functions, arrays,
  objects), named by an address.
\<close>

datatype js_value =
    JUndefined
  | JNull
  | JBoolean bool
  | JNumber "64 word"
  | JBigInt int
  | JString string
  | JObject nat

text \<open>
  The conversion a JavaScript condition applies to a value (\<^verbatim>\<open>result && ...\<close>): false for
  \<^verbatim>\<open>undefined\<close>, \<^verbatim>\<open>null\<close>, \<^verbatim>\<open>false\<close>, the zeros (either sign), NaN, \<^verbatim>\<open>0n\<close> and the empty
  string, true otherwise. With the sign bit masked off, a binary64 is a zero when the
  rest is 0 and a NaN when the rest lies above the bit pattern of infinity.
\<close>

fun to_boolean :: "js_value \<Rightarrow> bool" where
  "to_boolean JUndefined = False"
| "to_boolean JNull = False"
| "to_boolean (JBoolean b) = b"
| "to_boolean (JNumber w) =
     (let magnitude = w AND 0x7FFFFFFFFFFFFFFF
      in magnitude \<noteq> 0 \<and> magnitude \<le> 0x7FF0000000000000)"
| "to_boolean (JBigInt n) = (n \<noteq> 0)"
| "to_boolean (JString s) = (s \<noteq> [])"
| "to_boolean (JObject a) = True"

text \<open>
  A thrown value. JavaScript lets a \<^verbatim>\<open>throw\<close> carry any value, and the driver does one
  thing with what it catches: it evaluates \<^verbatim>\<open>error.message\<close> inside a template literal
  (lines 28 and 81). A thrown value is therefore told by what that evaluation does:
  \<open>Readable text\<close> is a value on which it yields \<open>text\<close> (an \<^verbatim>\<open>Error\<close> object, and any
  other object, number, string or boolean); \<open>Unreadable e\<close> is a value on which the
  evaluation itself throws \<open>e\<close>. The values \<^verbatim>\<open>null\<close> and \<^verbatim>\<open>undefined\<close> are of the second
  kind: reading a property of them throws a \<^verbatim>\<open>TypeError\<close>.
\<close>

datatype js_thrown =
    Readable string
  | Unreadable js_thrown

fun has_message :: "js_thrown \<Rightarrow> bool" where
  "has_message (Readable text) = True"
| "has_message (Unreadable e) = False"

text \<open>
  The \<^verbatim>\<open>TypeError\<close> that reading \<^verbatim>\<open>message\<close> off \<^verbatim>\<open>null\<close> or \<^verbatim>\<open>undefined\<close> throws (its
  message as Node words it), and the two values as thrown values.
\<close>

definition TypeError_reading :: "string \<Rightarrow> js_thrown" where
  "TypeError_reading what =
     Readable (''Cannot read properties of '' @ what @ '' (reading 'message')'')"

definition thrown_null :: js_thrown where
  "thrown_null = Unreadable (TypeError_reading ''null'')"

definition thrown_undefined :: js_thrown where
  "thrown_undefined = Unreadable (TypeError_reading ''undefined'')"

text \<open>
  Modelled from the spec: the tokenizer and the parser are not in \<^verbatim>\<open>src/\<close>. Section 6
  of the specification gives the shape of what they report:
  \<^verbatim>\<open>{ line: integer, location-context: string, message: string }\<close>.
\<close>

record diagnostic =
  diag_line :: nat
  diag_where :: string
  diag_message :: string

subsection \<open>The collaborators and the process, as the driver meets them\<close>

text \<open>
  What the driver's calls depend on:
  \<^item> \<open>tokenize source\<close> is \<^verbatim>\<open>new Tokenizer(source).tokenize()\<close>: the diagnostics the
    tokenizer reported on its own while scanning, and either the thrown error or the
    token sequence it returned;
  \<^item> \<open>parse tokens\<close> is \<^verbatim>\<open>new Parser(tokens).parse()\<close>, in the same way;
  \<^item> \<open>new_Interpreter\<close> is the state of a fresh \<^verbatim>\<open>new Interpreter()\<close>;
  \<^item> \<open>interpret_stmts i statements\<close> is \<^verbatim>\<open>interpreter.interpret(statements)\<close> on an interpreter
    in state \<open>i\<close>: \<open>None\<close> when the call never returns (the interpreted program loops),
    otherwise the thrown error or the returned value, together with the state the
    interpreter is left in;
  \<^item> \<open>argv\<close> is \<^verbatim>\<open>process.argv\<close>, \<open>readFileSync\<close> is \<^verbatim>\<open>fs.readFileSync(path, 'utf8')\<close>
    and \<open>stdin\<close> holds the lines readline delivers before the input ends.
  The tokenizer and the parser are constructed from the source text and the tokens alone
  and the engine object is local to \<^verbatim>\<open>main\<close>, so no collaborator can reach the engine's
  fields or methods: a collaborator influences the driver by returning or by throwing.
  The tokenizer and the parser always do one or the other (section 4 of the specification
  has both of them end on every finite input); a call of the interpreter may also go on
  for ever, since it runs the loops of the program it is given. What a collaborator
  throws is any thrown value, readable or not.
\<close>

record ('t, 'a, 'i) host =
  tokenize :: "string \<Rightarrow> diagnostic list \<times> (js_thrown + 't)"
  parse :: "'t \<Rightarrow> diagnostic list \<times> (js_thrown + 'a)"
  new_Interpreter :: "'i"
  interpret_stmts :: "'i \<Rightarrow> 'a \<Rightarrow> ((js_thrown + js_value) \<times> 'i) option"
  argv :: "string list"
  readFileSync :: "string \<Rightarrow> js_thrown + string"
  stdin :: "string list"

text \<open>The observable steps of a run, in the order they happen.\<close>

datatype ('t, 'a) event =
    Console_log string
  | Console_log_value js_value
  | Console_error string
  | Prompt
  | Tokenizer_run string
  | Parser_run 't
  | Interpret_run 'a
  | Stage_report diagnostic

text \<open>
  The fields of a \<^verbatim>\<open>MiniJSEngine\<close> instance (lines 12 to 16), and the trace of the
  process so far.
\<close>

record ('t, 'a, 'i) engine =
  interpreter :: "'i"
  hadError :: bool
  hadRuntimeError :: bool
  trace :: "('t, 'a) event list"

text \<open>
  How a piece of driver code ends: it returns, an exception leaves it, it calls
  \<^verbatim>\<open>process.exit(code)\<close>, or it waits for a call that never returns.
\<close>

datatype 's control =
    Returned 's
  | Raised js_thrown 's
  | Exited nat 's
  | Hung 's

fun state_of :: "'s control \<Rightarrow> 's" where
  "state_of (Returned s) = s"
| "state_of (Raised e s) = s"
| "state_of (Exited n s) = s"
| "state_of (Hung s) = s"

fun exit_code :: "'s control \<Rightarrow> nat option" where
  "exit_code (Exited n s) = Some n"
| "exit_code (Returned s) = None"
| "exit_code (Raised e s) = None"
| "exit_code (Hung s) = None"

text \<open>The exception that leaves a piece of code; left uncaught by \<open>main\<close>, it ends the process.\<close>

fun uncaught :: "'s control \<Rightarrow> js_thrown option" where
  "uncaught (Raised e s) = Some e"
| "uncaught (Returned s) = None"
| "uncaught (Exited n s) = None"
| "uncaught (Hung s) = None"

definition emit :: "('t, 'a) event list \<Rightarrow> ('t, 'a, 'i) engine \<Rightarrow> ('t, 'a, 'i) engine" where
  "emit evs s = s\<lparr>trace := trace s @ evs\<rparr>"

subsection \<open>The class MiniJSEngine\<close>

text \<open>The constructor, lines 12 to 16.\<close>

definition new_MiniJSEngine :: "('t, 'a, 'i) host \<Rightarrow> ('t, 'a, 'i) engine" where
  "new_MiniJSEngine h =
     \<lparr>interpreter = new_Interpreter h, hadError = False, hadRuntimeError = False, trace = []\<rparr>"

text \<open>
  The error reporting methods, lines 87 to 99. \<open>line_text\<close> is the text the template
  literal makes of its \<^verbatim>\<open>line\<close> argument.
\<close>

definition report :: "string \<Rightarrow> string \<Rightarrow> string \<Rightarrow> ('t, 'a, 'i) engine \<Rightarrow> ('t, 'a, 'i) engine" where
  "report line_text where_text msg s =
     (emit [Console_error (''[line '' @ line_text @ ''] Error '' @ where_text @ '': '' @ msg)] s)
       \<lparr>hadError := True\<rparr>"

definition error_at :: "string \<Rightarrow> string \<Rightarrow> ('t, 'a, 'i) engine \<Rightarrow> ('t, 'a, 'i) engine" where
  "error_at line_text msg s = report line_text [] msg s"

definition runtimeError :: "js_thrown \<Rightarrow> ('t, 'a, 'i) engine \<Rightarrow> ('t, 'a, 'i) engine control" where
  "runtimeError err s =
     (case err of
        Readable text \<Rightarrow>
          Returned ((emit [Console_error (''Runtime Error: '' @ text)] s)\<lparr>hadRuntimeError := True\<rparr>)
      | Unreadable e \<Rightarrow> Raised e s)"

text \<open>
  The body of the \<^verbatim>\<open>try\<close> block of \<^verbatim>\<open>run\<close>, lines 62 to 79. A collaborator that throws
  ends the block at once; the guard of line 71 is read after both the tokenizer and the
  parser have run.
\<close>

definition run_try :: "('t, 'a, 'i) host \<Rightarrow> string \<Rightarrow> ('t, 'a, 'i) engine \<Rightarrow> ('t, 'a, 'i) engine control" where
  "run_try h source s =
     (case tokenize h source of (lexical, tokens_or_thrown) \<Rightarrow>
        let s1 = emit (Tokenizer_run source # map Stage_report lexical) s in
        (case tokens_or_thrown of
           Inl thrown \<Rightarrow> Raised thrown s1
         | Inr tokens \<Rightarrow>
             (case parse h tokens of (syntactic, statements_or_thrown) \<Rightarrow>
                let s2 = emit (Parser_run tokens # map Stage_report syntactic) s1 in
                (case statements_or_thrown of
                   Inl thrown \<Rightarrow> Raised thrown s2
                 | Inr statements \<Rightarrow>
                     if hadError s2 then Returned s2
                     else
                       let s3 = emit [Interpret_run statements] s2 in
                       (case interpret_stmts h (interpreter s3) statements of
                          None \<Rightarrow> Hung s3
                        | Some (Inl thrown, i') \<Rightarrow> Raised thrown (s3\<lparr>interpreter := i'\<rparr>)
                        | Some (Inr result, i') \<Rightarrow>
                            let s4 = s3\<lparr>interpreter := i'\<rparr> in
                            if to_boolean result \<and> length (argv h) \<le> 2
                            then Returned (emit [Console_log_value result] s4)
                            else Returned s4)))))"

text \<open>
  \<^verbatim>\<open>run(source)\<close>, lines 60 to 84: the \<^verbatim>\<open>try\<close> block and its \<^verbatim>\<open>catch\<close>. Line 81 reads the
  message before line 82 raises the flag: on a thrown value whose message cannot be
  read, the \<^verbatim>\<open>catch\<close> block throws in its turn, nothing is written, \<open>hadError\<close> stays as
  it was and the new exception leaves \<open>run\<close>.
\<close>

definition run :: "('t, 'a, 'i) host \<Rightarrow> string \<Rightarrow> ('t, 'a, 'i) engine \<Rightarrow> ('t, 'a, 'i) engine control" where
  "run h source s =
     (case run_try h source s of
        Raised thrown s' \<Rightarrow>
          (case thrown of
             Readable text \<Rightarrow>
               Returned ((emit [Console_error (''Error: '' @ text)] s')\<lparr>hadError := True\<rparr>)
           | Unreadable e \<Rightarrow> Raised e s')
      | Returned s' \<Rightarrow> Returned s'
      | Exited n s' \<Rightarrow> Exited n s'
      | Hung s' \<Rightarrow> Hung s')"

text \<open>
  \<^verbatim>\<open>runFile(path)\<close>, lines 19 to 31. \<^verbatim>\<open>process.exit\<close> ends the process where it is
  called, so the second test is reached only when the first one fails; the \<^verbatim>\<open>catch\<close>
  covers the read and the call of \<^verbatim>\<open>run\<close>, and line 28 reads the message as line 81 does.
\<close>

definition runFile_try :: "('t, 'a, 'i) host \<Rightarrow> string \<Rightarrow> ('t, 'a, 'i) engine \<Rightarrow> ('t, 'a, 'i) engine control" where
  "runFile_try h path s =
     (case readFileSync h path of
        Inl thrown \<Rightarrow> Raised thrown s
      | Inr source \<Rightarrow>
          (case run h source s of
             Returned s' \<Rightarrow>
               if hadError s' then Exited 65 s'
               else if hadRuntimeError s' then Exited 70 s'
               else Returned s'
           | Raised thrown s' \<Rightarrow> Raised thrown s'
           | Exited n s' \<Rightarrow> Exited n s'
           | Hung s' \<Rightarrow> Hung s'))"

definition runFile :: "('t, 'a, 'i) host \<Rightarrow> string \<Rightarrow> ('t, 'a, 'i) engine \<Rightarrow> ('t, 'a, 'i) engine control" where
  "runFile h path s =
     (case runFile_try h path s of
        Raised thrown s' \<Rightarrow>
          (case thrown of
             Readable text \<Rightarrow> Exited 1 (emit [Console_error (''Error reading file: '' @ text)] s')
           | Unreadable e \<Rightarrow> Raised e s')
      | Returned s' \<Rightarrow> Returned s'
      | Exited n s' \<Rightarrow> Exited n s'
      | Hung s' \<Rightarrow> Hung s')"

text \<open>
  \<^verbatim>\<open>String.prototype.trim\<close> on a string of code units below 256: the white space and
  line terminators there are tab, line feed, vertical tab, form feed, carriage return,
  space and the no-break space.
\<close>

definition is_white_space :: "char \<Rightarrow> bool" where
  "is_white_space c = (of_char c \<in> {9, 10, 11, 12, 13, 32, 160 :: nat})"

definition trim :: "string \<Rightarrow> string" where
  "trim s = rev (dropWhile is_white_space (rev (dropWhile is_white_space s)))"

text \<open>
  \<^verbatim>\<open>runPrompt()\<close>, lines 34 to 57. The handler of \<^verbatim>\<open>close\<close> (lines 53 to 56) runs when
  \<^verbatim>\<open>rl.close()\<close> is called and when the input ends; the handler of \<^verbatim>\<open>line\<close> (lines 43 to
  52) runs once for each line. \<open>feed_lines\<close> is readline delivering lines one after the
  other for as long as the handler returns.
\<close>

definition on_close :: "('t, 'a, 'i) engine \<Rightarrow> ('t, 'a, 'i) engine control" where
  "on_close s = Exited 0 (emit [Console_log ''Goodbye!''] s)"

definition on_line :: "('t, 'a, 'i) host \<Rightarrow> string \<Rightarrow> ('t, 'a, 'i) engine \<Rightarrow> ('t, 'a, 'i) engine control" where
  "on_line h line s =
     (if trim line = ''exit'' \<or> trim line = ''quit'' then on_close s
      else
        (case run h line s of
           Returned s' \<Rightarrow> Returned (emit [Prompt] (s'\<lparr>hadError := False, hadRuntimeError := False\<rparr>))
         | Raised thrown s' \<Rightarrow> Raised thrown s'
         | Exited n s' \<Rightarrow> Exited n s'
         | Hung s' \<Rightarrow> Hung s'))"

fun feed_lines :: "('t, 'a, 'i) host \<Rightarrow> string list \<Rightarrow> ('t, 'a, 'i) engine \<Rightarrow> ('t, 'a, 'i) engine control" where
  "feed_lines h [] s = Returned s"
| "feed_lines h (line # rest) s =
     (case on_line h line s of
        Returned s' \<Rightarrow> feed_lines h rest s'
      | Raised thrown s' \<Rightarrow> Raised thrown s'
      | Exited n s' \<Rightarrow> Exited n s'
      | Hung s' \<Rightarrow> Hung s')"

definition runPrompt :: "('t, 'a, 'i) host \<Rightarrow> ('t, 'a, 'i) engine \<Rightarrow> ('t, 'a, 'i) engine control" where
  "runPrompt h s =
     (case feed_lines h (stdin h) (emit [Prompt] s) of
        Returned s' \<Rightarrow> on_close s'
      | Raised thrown s' \<Rightarrow> Raised thrown s'
      | Exited n s' \<Rightarrow> Exited n s'
      | Hung s' \<Rightarrow> Hung s')"

text \<open>\<^verbatim>\<open>main()\<close>, lines 103 to 116.\<close>

definition main :: "('t, 'a, 'i) host \<Rightarrow> ('t, 'a, 'i) engine control" where
  \<open>main h =
     (let engine = new_MiniJSEngine h in
      if length (argv h) > 3
      then Exited 64 (emit [Console_log ''Usage: node src/index.js [script]''] engine)
      else if length (argv h) = 3 then runFile h (argv h ! 2) engine
      else runPrompt h
             (emit [Console_log ''Mini JavaScript Engine - REPL Mode'',
                    Console_log ''Type "exit" or "quit" to exit''] engine))\<close>

subsection \<open>Reading a trace\<close>

text \<open>
  What a trace says about the collaborators and the console: the token sequences handed
  to the parser, the programs handed to \<^verbatim>\<open>interpret\<close>, and the values written by the
  \<^verbatim>\<open>console.log(result)\<close> of line 78, each in order.
\<close>

fun parsed :: "('t, 'a) event list \<Rightarrow> 't list" where
  "parsed [] = []"
| "parsed (Parser_run tokens # evs) = tokens # parsed evs"
| "parsed (ev # evs) = parsed evs"

fun interpreted :: "('t, 'a) event list \<Rightarrow> 'a list" where
  "interpreted [] = []"
| "interpreted (Interpret_run statements # evs) = statements # interpreted evs"
| "interpreted (ev # evs) = interpreted evs"

fun echoed :: "('t, 'a) event list \<Rightarrow> js_value list" where
  "echoed [] = []"
| "echoed (Console_log_value v # evs) = v # echoed evs"
| "echoed (ev # evs) = echoed evs"

subsection \<open>A session, in the words of the specification\<close>

text \<open>
  The specification describes a REPL session as one long-lived interpreter that is fed
  one program for each line, so that what a line declares is there for the lines after
  it. \<open>session_env h lines i\<close> is the interpreter state such a session reaches from
  state \<open>i\<close>: each line that the tokenizer and the parser accept is interpreted in the
  state its predecessor left, a line they reject leaves the state alone, and the session
  stops at \<^verbatim>\<open>exit\<close>, at \<^verbatim>\<open>quit\<close>, at a program that never returns, and where the process
  dies of a thrown value whose message cannot be read.
\<close>

fun session_env :: "('t, 'a, 'i) host \<Rightarrow> string list \<Rightarrow> 'i \<Rightarrow> 'i" where
  "session_env h [] i = i"
| "session_env h (line # rest) i =
     (if trim line = ''exit'' \<or> trim line = ''quit'' then i
      else
        (case snd (tokenize h line) of
           Inl thrown \<Rightarrow> if has_message thrown then session_env h rest i else i
         | Inr tokens \<Rightarrow>
             (case snd (parse h tokens) of
                Inl thrown \<Rightarrow> if has_message thrown then session_env h rest i else i
              | Inr statements \<Rightarrow>
                  (case interpret_stmts h i statements of
                     None \<Rightarrow> i
                   | Some (Inl thrown, i') \<Rightarrow>
                       if has_message thrown then session_env h rest i' else i'
                   | Some (Inr result, i') \<Rightarrow> session_env h rest i'))))"

subsection \<open>Collaborators that let the driver go on\<close>

text \<open>
  Two conditions on the collaborators, used as hypotheses. On a source text, with the
  interpreter in state \<open>i\<close>, \<open>stages_come_back h flagged i source\<close> says that whatever the
  tokenizer or the parser throws has a message that can be read and that the
  interpreter, where the driver calls it (\<open>flagged\<close> is the value of \<open>hadError\<close>, which
  keeps the driver from calling it), returns or throws such a value. On the lines of a
  REPL, \<open>lines_come_back\<close> says so of every line in turn, each in the interpreter state
  its predecessors leave, and that no line is \<^verbatim>\<open>exit\<close> or \<^verbatim>\<open>quit\<close>.
\<close>

definition stages_come_back :: "('t, 'a, 'i) host \<Rightarrow> bool \<Rightarrow> 'i \<Rightarrow> string \<Rightarrow> bool" where
  "stages_come_back h flagged i source =
     (case snd (tokenize h source) of
        Inl thrown \<Rightarrow> has_message thrown
      | Inr tokens \<Rightarrow>
          (case snd (parse h tokens) of
             Inl thrown \<Rightarrow> has_message thrown
           | Inr statements \<Rightarrow>
               flagged \<or>
               (case interpret_stmts h i statements of
                  None \<Rightarrow> False
                | Some (Inl thrown, i') \<Rightarrow> has_message thrown
                | Some (Inr result, i') \<Rightarrow> True)))"

fun lines_come_back :: "('t, 'a, 'i) host \<Rightarrow> 'i \<Rightarrow> string list \<Rightarrow> bool" where
  "lines_come_back h i [] = True"
| "lines_come_back h i (line # rest) =
     (trim line \<noteq> ''exit'' \<and> trim line \<noteq> ''quit'' \<and> stages_come_back h False i line \<and>
      lines_come_back h (session_env h [line] i) rest)"

subsection \<open>Sample collaborators\<close>

text \<open>
  A small tokenizer, parser and interpreter on which the driver can be run by
  evaluation. Tokens and statements are the text itself; the interpreter's state is the
  list of the names declared so far. The tokenizer throws an error at \<open>@\<close> and
  \<^verbatim>\<open>undefined\<close> at \<open>$\<close>, and at \<open>#\<close> it reports
  the character and goes on without it; the parser throws at \<^verbatim>\<open>var x = ;\<close>; the
  interpreter declares \<open>x\<close> at \<^verbatim>\<open>var x = 1;\<close>, answers \<open>x\<close> with 1.0 where it is declared and
  throws where it is not, answers \<open>1\<close> with 1.0 and \<open>0\<close> with 0.0, throws \<^verbatim>\<open>null\<close> at
  \<^verbatim>\<open>throw null\<close>, and never returns from \<^verbatim>\<open>while (true) {}\<close>. The file system holds five
  scripts.
\<close>

definition sample_tokenize :: "string \<Rightarrow> diagnostic list \<times> (js_thrown + string)" where
  "sample_tokenize source =
     (if CHR ''@'' \<in> set source then ([], Inl (Readable ''Unexpected character: @''))
      else if CHR ''$'' \<in> set source then ([], Inl thrown_undefined)
      else if CHR ''#'' \<in> set source
      then ([\<lparr>diag_line = 1, diag_where = [], diag_message = ''Unexpected character: #''\<rparr>],
            Inr (filter (\<lambda>c. c \<noteq> CHR ''#'') source))
      else ([], Inr source))"

definition sample_parse :: "string \<Rightarrow> diagnostic list \<times> (js_thrown + string)" where
  "sample_parse tokens =
     (if tokens = ''var x = ;'' then ([], Inl (Readable ''Expect expression.''))
      else ([], Inr tokens))"

definition sample_interpret :: "string list \<Rightarrow> string \<Rightarrow> ((js_thrown + js_value) \<times> string list) option" where
  "sample_interpret env statements =
     (if statements = ''var x = 1;'' then Some (Inr JUndefined, ''x'' # env)
      else if statements = ''x''
      then (if ''x'' \<in> set env then Some (Inr (JNumber 0x3FF0000000000000), env)
            else Some (Inl (Readable ''Undefined variable x''), env))
      else if statements = ''throw null'' then Some (Inl thrown_null, env)
      else if statements = ''1'' then Some (Inr (JNumber 0x3FF0000000000000), env)
      else if statements = ''0'' then Some (Inr (JNumber 0), env)
      else if statements = ''while (true) {}'' then None
      else Some (Inr JUndefined, env))"

definition sample_readFileSync :: "string \<Rightarrow> js_thrown + string" where
  "sample_readFileSync path =
     (if path = ''declare.js'' then Inr ''var x = 1;''
      else if path = ''one.js'' then Inr ''1''
      else if path = ''runtime.js'' then Inr ''x''
      else if path = ''syntax.js'' then Inr ''var x = ;''
      else if path = ''null.js'' then Inr ''throw null''
      else Inl (Readable ''ENOENT: no such file or directory''))"

definition sample_host :: "string list \<Rightarrow> string list \<Rightarrow> (string, string, string list) host" where
  "sample_host args lines =
     \<lparr>tokenize = sample_tokenize, parse = sample_parse, new_Interpreter = [],
      interpret_stmts = sample_interpret, argv = ''node'' # ''src/index.js'' # args,
      readFileSync = sample_readFileSync, stdin = lines\<rparr>"

section \<open>Properties of the driver\<close>

subsection \<open>Helper facts\<close>

lemma emit_simps:
  "interpreter (emit evs s) = interpreter s"
  "hadError (emit evs s) = hadError s"
  "hadRuntimeError (emit evs s) = hadRuntimeError s"
  "trace (emit evs s) = trace s @ evs"
  by (simp_all add: emit_def)

lemma parsed_append: "parsed (xs @ ys) = parsed xs @ parsed ys"
  by (induction xs rule: parsed.induct) simp_all

lemma interpreted_append: "interpreted (xs @ ys) = interpreted xs @ interpreted ys"
  by (induction xs rule: interpreted.induct) simp_all

lemma echoed_append: "echoed (xs @ ys) = echoed xs @ echoed ys"
  by (induction xs rule: echoed.induct) simp_all

lemma parsed_reports: "parsed (map Stage_report ds) = []"
  by (induction ds) simp_all

lemma interpreted_reports: "interpreted (map Stage_report ds) = []"
  by (induction ds) simp_all

lemma echoed_reports: "echoed (map Stage_report ds) = []"
  by (induction ds) simp_all

lemmas trace_reading =
  parsed_append interpreted_append echoed_append parsed_reports interpreted_reports echoed_reports

lemmas run_unfold = run_def run_try_def Let_def emit_simps

lemmas run_splits = prod.splits sum.splits option.splits js_thrown.splits

lemmas sample_defs =
  sample_host_def sample_tokenize_def sample_parse_def sample_interpret_def
  sample_readFileSync_def new_MiniJSEngine_def thrown_null_def thrown_undefined_def

text \<open>\<open>run\<close> never ends the process, and it leaves \<open>hadRuntimeError\<close> alone.\<close>

lemma run_not_Exited: "run h source s \<noteq> Exited n s'"
  by (simp add: run_unfold split: run_splits)

lemma run_keeps_hadRuntimeError:
  "hadRuntimeError (state_of (run h source s)) = hadRuntimeError s"
  by (simp add: run_unfold split: run_splits)

lemma run_file_mode_echo:
  "2 < length (argv h) \<Longrightarrow> echoed (trace (state_of (run h source s))) = echoed (trace s)"
  by (simp add: run_unfold trace_reading split: run_splits)

text \<open>
  \<open>run\<close> returns when the collaborators come back, and an exception leaves it only
  when a collaborator has thrown a value whose message cannot be read.
\<close>

lemma run_comes_back:
  "stages_come_back h (hadError s) (interpreter s) source \<Longrightarrow> \<exists>s'. run h source s = Returned s'"
  by (auto simp add: stages_come_back_def run_unfold split: run_splits)



lemma runFile_file_mode_echo:
  "2 < length (argv h) \<Longrightarrow> echoed (trace (state_of (runFile h path s))) = echoed (trace s)"
proof (cases "readFileSync h path")
  case (Inl thrown)
  then show ?thesis
    by (cases thrown) (simp_all add: runFile_def runFile_try_def emit_simps trace_reading)
next
  case (Inr source)
  assume "2 < length (argv h)"
  from run_file_mode_echo [OF this, of source s] Inr show ?thesis
    by (cases "run h source s")
      (simp_all add: runFile_def runFile_try_def emit_simps trace_reading split: js_thrown.splits)
qed

text \<open>The handler of a line hands back an engine whose two flags are down.\<close>

lemma on_line_Returned_flags:
  "on_line h line s = Returned s' \<Longrightarrow> \<not> hadError s' \<and> \<not> hadRuntimeError s'"
  by (auto simp add: on_line_def on_close_def emit_simps split: if_splits control.splits)


lemma on_line_interprets_valid_line:
  assumes "\<not> hadError s"
    and "trim line \<noteq> ''exit''" and "trim line \<noteq> ''quit''"
    and "tokenize h line = (lexical, Inr tokens)"
    and "parse h tokens = (syntactic, Inr statements)"
  shows "interpreted (trace (state_of (on_line h line s))) = interpreted (trace s) @ [statements]"
  using assms
  by (simp add: on_line_def run_unfold trace_reading split: run_splits)

lemma on_line_comes_back:
  assumes "trim line \<noteq> ''exit''" and "trim line \<noteq> ''quit''"
    and "stages_come_back h (hadError s) (interpreter s) line"
  shows "\<exists>s'. on_line h line s = Returned s' \<and> \<not> hadError s' \<and> \<not> hadRuntimeError s' \<and>
           last (trace s') = Prompt"
proof -
  from run_comes_back [OF assms(3)] obtain s0 where "run h line s = Returned s0" ..
  with assms(1,2) show ?thesis by (simp add: on_line_def emit_simps)
qed


lemma feed_lines_Returned_hadError:
  "feed_lines h lines s = Returned s' \<Longrightarrow> lines \<noteq> [] \<or> \<not> hadError s \<Longrightarrow> \<not> hadError s'"
proof (induction lines arbitrary: s)
  case Nil
  then show ?case by simp
next
  case (Cons line rest)
  from Cons.prems(1) obtain s1 where
    one: "on_line h line s = Returned s1" and more: "feed_lines h rest s1 = Returned s'"
    by (cases "on_line h line s") simp_all
  from on_line_Returned_flags [OF one] have "\<not> hadError s1" by simp
  with Cons.IH [OF more] show ?case by simp
qed

lemma feed_lines_append:
  "feed_lines h earlier s = Returned s1 \<Longrightarrow>
   feed_lines h (earlier @ later) s = feed_lines h later s1"
proof (induction earlier arbitrary: s)
  case Nil
  then show ?case by simp
next
  case (Cons line rest)
  then show ?case by (cases "on_line h line s") simp_all
qed

text \<open>
  The interpreter state of the driver follows the session of the specification, line by
  line: by induction on the lines, the engine being any engine whose \<open>hadError\<close> is down.
\<close>

lemma feed_lines_session:
  "\<not> hadError s \<Longrightarrow>
   interpreter (state_of (feed_lines h lines s)) = session_env h lines (interpreter s)"
proof (induction lines arbitrary: s)
  case Nil
  then show ?case by simp
next
  case (Cons line rest)
  show ?case
  proof (cases "trim line = ''exit'' \<or> trim line = ''quit''")
    case True
    then show ?thesis by (auto simp add: on_line_def on_close_def emit_simps)
  next
    case False
    with Cons.prems Cons.IH show ?thesis
      by (auto simp add: on_line_def run_unfold split: run_splits)
  qed
qed

lemma feed_lines_come_back:
  "\<not> hadError s \<Longrightarrow> lines_come_back h (interpreter s) lines \<Longrightarrow>
   \<exists>s1. feed_lines h lines s = Returned s1 \<and> \<not> hadError s1"
proof (induction lines arbitrary: s)
  case Nil
  then show ?case by simp
next
  case (Cons line rest)
  from Cons.prems have quiet: "trim line \<noteq> ''exit''" "trim line \<noteq> ''quit''"
    and gentle: "stages_come_back h (hadError s) (interpreter s) line"
    and more: "lines_come_back h (session_env h [line] (interpreter s)) rest"
    by (simp_all del: session_env.simps)
  from on_line_comes_back [OF quiet gentle] obtain s' where
    one: "on_line h line s = Returned s'" and clean: "\<not> hadError s'"
    by blast
  from feed_lines_session [OF Cons.prems(1), of h "[line]"] one
  have "interpreter s' = session_env h [line] (interpreter s)" by simp
  with more have "lines_come_back h (interpreter s') rest" by simp
  from Cons.IH [OF clean this] one show ?case by simp
qed

lemma runPrompt_session:
  assumes "\<not> hadError s"
  shows "interpreter (state_of (runPrompt h s)) = session_env h (stdin h) (interpreter s)"
proof -
  have "\<not> hadError (emit [Prompt] s)" using assms by (simp add: emit_simps)
  from feed_lines_session [OF this, of h "stdin h"] show ?thesis
    by (cases "feed_lines h (stdin h) (emit [Prompt] s)")
      (simp_all add: runPrompt_def on_close_def emit_simps)
qed



text \<open>
  The exit code 70 of line 26 is never used: \<open>run\<close> leaves \<open>hadRuntimeError\<close> as the
  constructor set it, and the REPL ends with code 0.
\<close>

lemma main_never_exits_70: "exit_code (main h) \<noteq> Some 70"
proof -
  let ?e = "new_MiniJSEngine h"
  have e: "\<not> hadRuntimeError ?e" by (simp add: new_MiniJSEngine_def)
  have script: "exit_code (runFile h p ?e) \<noteq> Some 70" for p
  proof (cases "readFileSync h p")
    case (Inl thrown)
    then show ?thesis by (cases thrown) (simp_all add: runFile_def runFile_try_def)
  next
    case (Inr source)
    with run_keeps_hadRuntimeError [of h source ?e] e show ?thesis
      by (cases "run h source ?e")
        (simp_all add: runFile_def runFile_try_def run_not_Exited split: js_thrown.splits)
  qed
  have one: "exit_code (on_line h l s) \<noteq> Some 70" for l s
    by (cases "run h l s") (simp_all add: on_line_def on_close_def run_not_Exited)
  have many: "exit_code (feed_lines h ls s) \<noteq> Some 70" for ls s
  proof (induction ls arbitrary: s)
    case Nil
    then show ?case by simp
  next
    case (Cons l rest)
    with one [of l s] show ?case by (cases "on_line h l s") simp_all
  qed
  have repl: "exit_code (runPrompt h s) \<noteq> Some 70" for s
    using many [of "stdin h" "emit [Prompt] s"]
    by (cases "feed_lines h (stdin h) (emit [Prompt] s)") (simp_all add: runPrompt_def on_close_def)
  show ?thesis
    using script repl by (simp add: main_def Let_def)
qed

subsection \<open>Errors before interpretation\<close>




text \<open>
  Claim C2 says that a lexical error reported by the tokenizer keeps the parser from
  running on that unit. Lines 64 to 68 hold no test between the two stages: once
  \<^verbatim>\<open>tokenize()\<close> has returned, the parser is built on the tokens and run. The sample
  tokenizer reports the character \<open>#\<close> and returns the remaining tokens, and the parser
  is run on them; so is it on an engine whose \<open>hadError\<close> is already up, where only the
  interpreter is held back.
\<close>

theorem tokenizer_report_does_not_stop_parser:
  "fst (tokenize (sample_host [] []) ''1 # 2'') =
     [\<lparr>diag_line = 1, diag_where = [], diag_message = ''Unexpected character: #''\<rparr>] \<and>
   parsed (trace (state_of (run (sample_host [] []) ''1 # 2'' (new_MiniJSEngine (sample_host [] []))))) =
     [''1  2''] \<and>
   run (sample_host [] []) ''1 # 2'' ((new_MiniJSEngine (sample_host [] []))\<lparr>hadError := True\<rparr>) =
     Returned \<lparr>interpreter = [], hadError = True, hadRuntimeError = False,
       trace = [Tokenizer_run ''1 # 2'',
                Stage_report \<lparr>diag_line = 1, diag_where = [], diag_message = ''Unexpected character: #''\<rparr>,
                Parser_run ''1  2'']\<rparr>"
  by (simp add: run_unfold sample_defs emit_def)

text \<open>
  Claim C2, amended. For every source string passed to \<open>run\<close>: when the tokenizer throws
  a value whose message can be read, \<open>run\<close> catches it, writes \<^verbatim>\<open>Error: \<close> and the message
  to the console, raises \<open>hadError\<close> and returns, and that is all it does; whatever the
  tokenizer throws, neither the parser nor the interpreter is run on that unit. When the
  tokenizer returns a token sequence, the parser is run on exactly that sequence,
  whatever the tokenizer reported on the way and whatever \<open>hadError\<close> holds. \<open>hadError\<close> is
  read after the parser only: when it is up and the parser returns, \<open>run\<close> returns there,
  without interpreting.
\<close>

theorem tokenizer_exception_stops_parser:
  "(\<forall>lexical text. tokenize h source = (lexical, Inl (Readable text)) \<longrightarrow>
      run h source s =
        Returned (s\<lparr>hadError := True,
          trace := trace s @ Tokenizer_run source # map Stage_report lexical @
            [Console_error (''Error: '' @ text)]\<rparr>)) \<and>
   (\<forall>lexical thrown. tokenize h source = (lexical, Inl thrown) \<longrightarrow>
      parsed (trace (state_of (run h source s))) = parsed (trace s) \<and>
      interpreted (trace (state_of (run h source s))) = interpreted (trace s) \<and>
      interpreter (state_of (run h source s)) = interpreter s) \<and>
   (\<forall>lexical tokens. tokenize h source = (lexical, Inr tokens) \<longrightarrow>
      parsed (trace (state_of (run h source s))) = parsed (trace s) @ [tokens]) \<and>
   (\<forall>lexical tokens syntactic statements.
      hadError s \<and> tokenize h source = (lexical, Inr tokens) \<and>
      parse h tokens = (syntactic, Inr statements) \<longrightarrow>
      run h source s =
        Returned (s\<lparr>trace := trace s @ Tokenizer_run source # map Stage_report lexical @
          Parser_run tokens # map Stage_report syntactic\<rparr>))"
proof (intro conjI allI impI)
  fix lexical msg
  assume "tokenize h source = (lexical, Inl (Readable msg))"
  then show "run h source s =
        Returned (s\<lparr>hadError := True,
          trace := trace s @ Tokenizer_run source # map Stage_report lexical @
            [Console_error (''Error: '' @ msg)]\<rparr>)"
    by (simp add: run_unfold emit_def)
next
  fix lexical thrown
  assume a: "tokenize h source = (lexical, Inl thrown)"
  then show "parsed (trace (state_of (run h source s))) = parsed (trace s)"
    by (cases thrown) (simp_all add: run_unfold trace_reading)
  from a show "interpreted (trace (state_of (run h source s))) = interpreted (trace s)"
    by (cases thrown) (simp_all add: run_unfold trace_reading)
  from a show "interpreter (state_of (run h source s)) = interpreter s"
    by (cases thrown) (simp_all add: run_unfold)
next
  fix lexical tokens
  assume "tokenize h source = (lexical, Inr tokens)"
  then show "parsed (trace (state_of (run h source s))) = parsed (trace s) @ [tokens]"
    by (simp add: run_unfold trace_reading split: run_splits)
next
  fix lexical tokens syntactic statements
  assume "hadError s \<and> tokenize h source = (lexical, Inr tokens) \<and>
      parse h tokens = (syntactic, Inr statements)"
  then show "run h source s =
        Returned (s\<lparr>trace := trace s @ Tokenizer_run source # map Stage_report lexical @
          Parser_run tokens # map Stage_report syntactic\<rparr>)"
    by (simp add: run_unfold emit_def)
qed

theorem tokenizer_exception_stops_parser_witness:
  "tokenize (sample_host [] []) ''x @'' = ([], Inl (Readable ''Unexpected character: @'')) \<and>
   run (sample_host [] []) ''x @'' (new_MiniJSEngine (sample_host [] [])) =
     Returned \<lparr>interpreter = [], hadError = True, hadRuntimeError = False,
       trace = [Tokenizer_run ''x @'', Console_error ''Error: Unexpected character: @'']\<rparr> \<and>
   tokenize (sample_host [] []) ''a $ b'' = ([], Inl thrown_undefined) \<and>
   parsed (trace (state_of (run (sample_host [] []) ''a $ b'' (new_MiniJSEngine (sample_host [] []))))) = [] \<and>
   interpreted (trace (state_of (run (sample_host [] []) ''a $ b''
      (new_MiniJSEngine (sample_host [] []))))) = [] \<and>
   interpreter (state_of (run (sample_host [] []) ''a $ b'' (new_MiniJSEngine (sample_host [] [])))) = [] \<and>
   tokenize (sample_host [] []) ''1'' = ([], Inr ''1'') \<and>
   parsed (trace (state_of (run (sample_host [] []) ''1'' (new_MiniJSEngine (sample_host [] []))))) = [''1''] \<and>
   hadError ((new_MiniJSEngine (sample_host [] []))\<lparr>hadError := True\<rparr>) \<and>
   parse (sample_host [] []) ''1'' = ([], Inr ''1'') \<and>
   run (sample_host [] []) ''1'' ((new_MiniJSEngine (sample_host [] []))\<lparr>hadError := True\<rparr>) =
     Returned \<lparr>interpreter = [], hadError = True, hadRuntimeError = False,
       trace = [Tokenizer_run ''1'', Parser_run ''1'']\<rparr>"
proof -
  let ?h = "sample_host [] []"
  let ?s = "new_MiniJSEngine ?h"
  let ?flagged = "?s\<lparr>hadError := True\<rparr>"
  have t1: "tokenize ?h ''x @'' = ([], Inl (Readable ''Unexpected character: @''))"
    by (simp add: sample_defs)
  have t2: "tokenize ?h ''a $ b'' = ([], Inl thrown_undefined)"
    by (simp add: sample_host_def sample_tokenize_def)
  have t3: "tokenize ?h ''1'' = ([], Inr ''1'')" by (simp add: sample_defs)
  have p3: "parse ?h ''1'' = ([], Inr ''1'')" by (simp add: sample_defs)
  have up: "hadError ?flagged" by simp
  note c = tokenizer_exception_stops_parser
  from c [of ?h "''x @''" ?s, THEN conjunct1, rule_format, OF t1]
  have a: "run ?h ''x @'' ?s =
     Returned \<lparr>interpreter = [], hadError = True, hadRuntimeError = False,
       trace = [Tokenizer_run ''x @'', Console_error ''Error: Unexpected character: @'']\<rparr>"
    by (simp add: sample_defs)
  from c [of ?h "''a $ b''" ?s, THEN conjunct2, THEN conjunct1, rule_format, OF t2]
  have b: "parsed (trace (state_of (run ?h ''a $ b'' ?s))) = [] \<and>
      interpreted (trace (state_of (run ?h ''a $ b'' ?s))) = [] \<and>
      interpreter (state_of (run ?h ''a $ b'' ?s)) = []"
    by (simp add: sample_defs)
  from c [of ?h "''1''" ?s, THEN conjunct2, THEN conjunct2, THEN conjunct1, rule_format, OF t3]
  have d: "parsed (trace (state_of (run ?h ''1'' ?s))) = [''1'']"
    by (simp add: sample_defs)
  from c [of ?h "''1''" ?flagged, THEN conjunct2, THEN conjunct2, THEN conjunct2, rule_format,
      of "[]" "''1''" "[]" "''1''"] up t3 p3
  have e: "run ?h ''1'' ?flagged =
     Returned \<lparr>interpreter = [], hadError = True, hadRuntimeError = False,
       trace = [Tokenizer_run ''1'', Parser_run ''1'']\<rparr>"
    by (simp add: sample_defs)
  from t1 a t2 b t3 d up p3 e show ?thesis by simp
qed

subsection \<open>Exit codes\<close>

text \<open>
  Claim C3 says that after \<open>runFile\<close> the driver tells a syntax error from a runtime error
  and gives them the exit codes 65 and 70. The driver has the field, the method
  \<^verbatim>\<open>runtimeError\<close> and the test of line 26 for that, but nothing calls the method and
  the \<^verbatim>\<open>catch\<close> of \<open>run\<close> raises \<open>hadError\<close> for every exception: no run of the driver,
  with any collaborators, arguments and input, exits with code 70, and a script that
  fails at run time (\<open>x\<close> read before it is declared) ends exactly as a script with a
  syntax error does, with code 65 and \<open>hadRuntimeError\<close> down.
\<close>

theorem runtime_error_exits_like_syntax_error:
  "exit_code (main h) \<noteq> Some 70 \<and>
   main (sample_host [''runtime.js''] []) =
     Exited 65 \<lparr>interpreter = [], hadError = True, hadRuntimeError = False,
       trace = [Tokenizer_run ''x'', Parser_run ''x'', Interpret_run ''x'',
                Console_error ''Error: Undefined variable x'']\<rparr> \<and>
   main (sample_host [''syntax.js''] []) =
     Exited 65 \<lparr>interpreter = [], hadError = True, hadRuntimeError = False,
       trace = [Tokenizer_run ''var x = ;'', Parser_run ''var x = ;'',
                Console_error ''Error: Expect expression.'']\<rparr>"
  by (simp add: main_never_exits_70)
    (simp add: main_def runFile_def runFile_try_def run_unfold sample_defs emit_def)

subsection \<open>The REPL session\<close>

text \<open>
  Claim C4. The driver makes one interpreter (in the constructor) and hands every program
  of the session to it: the interpreter state of the driver after any lines of the REPL
  is the state the session of the specification reaches when each accepted line is
  interpreted in the state the line before it left. So what a line declares is what the
  later lines are interpreted in. This holds from any engine whose \<open>hadError\<close> is down,
  and for \<open>main\<close> in REPL mode from the fresh interpreter on the whole input.
\<close>

theorem repl_lines_share_one_interpreter:
  "(\<not> hadError s \<longrightarrow>
      interpreter (state_of (feed_lines h lines s)) = session_env h lines (interpreter s)) \<and>
   (length (argv h) \<le> 2 \<longrightarrow>
      interpreter (state_of (main h)) = session_env h (stdin h) (new_Interpreter h))"
proof (rule conjI)
  show "\<not> hadError s \<longrightarrow>
      interpreter (state_of (feed_lines h lines s)) = session_env h lines (interpreter s)"
    by (simp add: feed_lines_session)
next
  show "length (argv h) \<le> 2 \<longrightarrow>
      interpreter (state_of (main h)) = session_env h (stdin h) (new_Interpreter h)"
    by (simp add: main_def Let_def runPrompt_session emit_simps new_MiniJSEngine_def)
qed

text \<open>
  A session of three lines: \<open>x\<close> is declared, a line is refused by the tokenizer, and
  \<open>x\<close> is then read: it is still declared, and its value 1.0 is echoed.
\<close>

theorem repl_lines_share_one_interpreter_witness:
  "\<not> hadError (new_MiniJSEngine (sample_host [] [])) \<and>
   interpreter (state_of (feed_lines (sample_host [] []) [''var x = 1;'', ''y @'', ''x'']
      (new_MiniJSEngine (sample_host [] [])))) = [''x''] \<and>
   length (argv (sample_host [] [''var x = 1;'', ''y @'', ''x''])) \<le> 2 \<and>
   interpreter (state_of (main (sample_host [] [''var x = 1;'', ''y @'', ''x'']))) = [''x''] \<and>
   echoed (trace (state_of (main (sample_host [] [''var x = 1;'', ''y @'', ''x''])))) =
     [JNumber 0x3FF0000000000000]"
proof -
  let ?h = "sample_host [] [''var x = 1;'', ''y @'', ''x'']"
  let ?g = "sample_host [] []"
  have clean: "\<not> hadError (new_MiniJSEngine ?g)" by (simp add: sample_defs)
  have repl: "length (argv ?h) \<le> 2" by (simp add: sample_defs)
  have env0: "session_env ?g [''var x = 1;'', ''y @'', ''x''] (interpreter (new_MiniJSEngine ?g)) = [''x'']"
    by (simp add: sample_defs trim_def is_white_space_def)
  have env: "session_env ?h (stdin ?h) (new_Interpreter ?h) = [''x'']"
    by (simp add: sample_defs trim_def is_white_space_def)
  have echo: "echoed (trace (state_of (main ?h))) = [JNumber 0x3FF0000000000000]"
    by (simp add: main_def runPrompt_def on_line_def on_close_def run_unfold sample_defs emit_def
        trim_def is_white_space_def)
  from repl_lines_share_one_interpreter
    [of "new_MiniJSEngine ?g" ?g "[''var x = 1;'', ''y @'', ''x'']", THEN conjunct1, rule_format, OF clean]
    env0
  have lines: "interpreter (state_of (feed_lines ?g [''var x = 1;'', ''y @'', ''x'']
      (new_MiniJSEngine ?g))) = [''x'']"
    by simp
  from repl_lines_share_one_interpreter
    [of "new_MiniJSEngine ?h" ?h "[]", THEN conjunct2, rule_format, OF repl] env
  have "interpreter (state_of (main ?h)) = [''x'']"
    by simp
  with clean lines repl echo show ?thesis by simp
qed




subsection \<open>Exceptions and the two flags\<close>







subsection \<open>The echo of the result\<close>

text \<open>
  Claim C7. The driver uses the value \<^verbatim>\<open>interpret\<close> returns for the echo of the REPL and
  for nothing else. When \<^verbatim>\<open>interpret\<close> returns a value, the engine and the trace that
  \<open>run\<close> hands back are the same for every value, but for the one echo, which is there
  exactly when the value is truthy and \<^verbatim>\<open>process.argv\<close> has at most two entries; with a
  script path, \<open>run\<close> and \<open>runFile\<close> return what they would for any other value, \<open>run\<close>
  writes no result to the console, and a run of \<open>main\<close> on a script file writes none
  from start to end.
\<close>

theorem result_echoed_only_in_repl_mode:
  "(\<forall>lexical tokens syntactic statements result i'.
      \<not> hadError s \<and> tokenize h source = (lexical, Inr tokens) \<and>
      parse h tokens = (syntactic, Inr statements) \<and>
      interpret_stmts h (interpreter s) statements = Some (Inr result, i') \<longrightarrow>
      run h source s =
        Returned (s\<lparr>interpreter := i',
          trace := trace s @ Tokenizer_run source # map Stage_report lexical @
            Parser_run tokens # map Stage_report syntactic @
            Interpret_run statements #
            (if to_boolean result \<and> length (argv h) \<le> 2 then [Console_log_value result] else [])\<rparr>) \<and>
      (2 < length (argv h) \<and> \<not> hadRuntimeError s \<and> readFileSync h path = Inr source \<longrightarrow>
         runFile h path s =
           Returned (s\<lparr>interpreter := i',
             trace := trace s @ Tokenizer_run source # map Stage_report lexical @
               Parser_run tokens # map Stage_report syntactic @ [Interpret_run statements]\<rparr>))) \<and>
   (2 < length (argv h) \<longrightarrow> echoed (trace (state_of (run h source s))) = echoed (trace s)) \<and>
   (length (argv h) = 3 \<longrightarrow> echoed (trace (state_of (main h))) = [])"
proof (intro conjI allI impI)
  fix lexical tokens syntactic statements result i'
  assume a: "\<not> hadError s \<and> tokenize h source = (lexical, Inr tokens) \<and>
      parse h tokens = (syntactic, Inr statements) \<and>
      interpret_stmts h (interpreter s) statements = Some (Inr result, i')"
  then show "run h source s =
        Returned (s\<lparr>interpreter := i',
          trace := trace s @ Tokenizer_run source # map Stage_report lexical @
            Parser_run tokens # map Stage_report syntactic @
            Interpret_run statements #
            (if to_boolean result \<and> length (argv h) \<le> 2 then [Console_log_value result] else [])\<rparr>)"
    by (simp add: run_unfold emit_def)
  assume "2 < length (argv h) \<and> \<not> hadRuntimeError s \<and> readFileSync h path = Inr source"
  with a show "runFile h path s =
           Returned (s\<lparr>interpreter := i',
             trace := trace s @ Tokenizer_run source # map Stage_report lexical @
               Parser_run tokens # map Stage_report syntactic @ [Interpret_run statements]\<rparr>)"
    by (simp add: runFile_def runFile_try_def run_unfold emit_def)
next
  assume "2 < length (argv h)"
  then show "echoed (trace (state_of (run h source s))) = echoed (trace s)"
    by (rule run_file_mode_echo)
next
  assume "length (argv h) = 3"
  then show "echoed (trace (state_of (main h))) = []"
    by (simp add: runFile_file_mode_echo main_def Let_def new_MiniJSEngine_def)
qed

text \<open>
  The script \<^verbatim>\<open>one.js\<close> holds the program \<open>1\<close>, whose value 1.0 is not written.
\<close>

theorem result_echoed_only_in_repl_mode_witness:
  "\<not> hadError (new_MiniJSEngine (sample_host [''one.js''] [])) \<and>
   tokenize (sample_host [''one.js''] []) ''1'' = ([], Inr ''1'') \<and>
   parse (sample_host [''one.js''] []) ''1'' = ([], Inr ''1'') \<and>
   interpret_stmts (sample_host [''one.js''] []) (interpreter (new_MiniJSEngine (sample_host [''one.js''] []))) ''1'' =
     Some (Inr (JNumber 0x3FF0000000000000), []) \<and>
   2 < length (argv (sample_host [''one.js''] [])) \<and>
   length (argv (sample_host [''one.js''] [])) = 3 \<and>
   \<not> hadRuntimeError (new_MiniJSEngine (sample_host [''one.js''] [])) \<and>
   readFileSync (sample_host [''one.js''] []) ''one.js'' = Inr ''1'' \<and>
   run (sample_host [''one.js''] []) ''1'' (new_MiniJSEngine (sample_host [''one.js''] [])) =
     Returned \<lparr>interpreter = [], hadError = False, hadRuntimeError = False,
       trace = [Tokenizer_run ''1'', Parser_run ''1'', Interpret_run ''1'']\<rparr> \<and>
   runFile (sample_host [''one.js''] []) ''one.js'' (new_MiniJSEngine (sample_host [''one.js''] [])) =
     Returned \<lparr>interpreter = [], hadError = False, hadRuntimeError = False,
       trace = [Tokenizer_run ''1'', Parser_run ''1'', Interpret_run ''1'']\<rparr> \<and>
   echoed (trace (state_of (run (sample_host [''one.js''] []) ''1''
      (new_MiniJSEngine (sample_host [''one.js''] []))))) = [] \<and>
   echoed (trace (state_of (main (sample_host [''one.js''] [])))) = []"
proof -
  let ?h = "sample_host [''one.js''] []"
  let ?s = "new_MiniJSEngine ?h"
  note c = result_echoed_only_in_repl_mode [of ?s ?h "''1''" "''one.js''"]
  have t: "\<not> hadError ?s \<and> tokenize ?h ''1'' = ([], Inr ''1'') \<and> parse ?h ''1'' = ([], Inr ''1'') \<and>
      interpret_stmts ?h (interpreter ?s) ''1'' = Some (Inr (JNumber 0x3FF0000000000000), [])"
    by (simp add: sample_defs)
  have f: "2 < length (argv ?h) \<and> \<not> hadRuntimeError ?s \<and> readFileSync ?h ''one.js'' = Inr ''1''"
    by (simp add: sample_defs)
  have three: "length (argv ?h) = 3" by (simp add: sample_defs)
  note both = c [THEN conjunct1, rule_format, OF t]
  from both [THEN conjunct1] f
  have r: "run ?h ''1'' ?s =
     Returned \<lparr>interpreter = [], hadError = False, hadRuntimeError = False,
       trace = [Tokenizer_run ''1'', Parser_run ''1'', Interpret_run ''1'']\<rparr>"
    by (simp add: sample_defs)
  from both [THEN conjunct2, rule_format, OF f]
  have rf: "runFile ?h ''one.js'' ?s =
     Returned \<lparr>interpreter = [], hadError = False, hadRuntimeError = False,
       trace = [Tokenizer_run ''1'', Parser_run ''1'', Interpret_run ''1'']\<rparr>"
    by (simp add: sample_defs)
  from c [THEN conjunct2, THEN conjunct1] f
  have e1: "echoed (trace (state_of (run ?h ''1'' ?s))) = []"
    by (simp add: sample_defs)
  from c [THEN conjunct2, THEN conjunct2, rule_format, OF three]
  have e2: "echoed (trace (state_of (main ?h))) = []" .
  from t f three r rf e1 e2 show ?thesis by simp
qed

text \<open>
  Claim C9. In REPL mode (at most two entries in \<^verbatim>\<open>process.argv\<close>) \<open>run\<close> echoes the
  result of \<^verbatim>\<open>interpret\<close> exactly when the result is truthy: the steps of such a run are
  the three calls and, when the result converts to true, its echo, and nothing else. The
  values 0, \<^verbatim>\<open>false\<close>, the empty string, \<^verbatim>\<open>null\<close> and \<^verbatim>\<open>undefined\<close> convert to false.
\<close>

theorem repl_echoes_only_truthy_results:
  assumes "length (argv h) \<le> 2"
    and "\<not> hadError s"
    and "tokenize h source = (lexical, Inr tokens)"
    and "parse h tokens = (syntactic, Inr statements)"
    and "interpret_stmts h (interpreter s) statements = Some (Inr result, i')"
  shows
    "run h source s =
       Returned (s\<lparr>interpreter := i',
         trace := trace s @ Tokenizer_run source # map Stage_report lexical @
           Parser_run tokens # map Stage_report syntactic @
           Interpret_run statements # (if to_boolean result then [Console_log_value result] else [])\<rparr>) \<and>
     \<not> to_boolean (JNumber 0) \<and> \<not> to_boolean (JBoolean False) \<and> \<not> to_boolean (JString []) \<and>
     \<not> to_boolean JNull \<and> \<not> to_boolean JUndefined"
  using assms by (simp add: run_unfold emit_def)

text \<open>
  The program \<open>0\<close> has the value 0.0 and leaves no echo; the program \<open>1\<close> is echoed.
\<close>

theorem repl_echoes_only_truthy_results_witness:
  "length (argv (sample_host [] [])) \<le> 2 \<and>
   \<not> hadError (new_MiniJSEngine (sample_host [] [])) \<and>
   tokenize (sample_host [] []) ''0'' = ([], Inr ''0'') \<and>
   parse (sample_host [] []) ''0'' = ([], Inr ''0'') \<and>
   interpret_stmts (sample_host [] []) (interpreter (new_MiniJSEngine (sample_host [] []))) ''0'' =
     Some (Inr (JNumber 0), []) \<and>
   run (sample_host [] []) ''0'' (new_MiniJSEngine (sample_host [] [])) =
     Returned \<lparr>interpreter = [], hadError = False, hadRuntimeError = False,
       trace = [Tokenizer_run ''0'', Parser_run ''0'', Interpret_run ''0'']\<rparr> \<and>
   interpret_stmts (sample_host [] []) (interpreter (new_MiniJSEngine (sample_host [] []))) ''1'' =
     Some (Inr (JNumber 0x3FF0000000000000), []) \<and>
   run (sample_host [] []) ''1'' (new_MiniJSEngine (sample_host [] [])) =
     Returned \<lparr>interpreter = [], hadError = False, hadRuntimeError = False,
       trace = [Tokenizer_run ''1'', Parser_run ''1'', Interpret_run ''1'',
                Console_log_value (JNumber 0x3FF0000000000000)]\<rparr>"
  using repl_echoes_only_truthy_results
    [of "sample_host [] []" "new_MiniJSEngine (sample_host [] [])" "''0''" "[]" "''0''" "[]" "''0''"
        "JNumber 0" "[]"]
    repl_echoes_only_truthy_results
    [of "sample_host [] []" "new_MiniJSEngine (sample_host [] [])" "''1''" "[]" "''1''" "[]" "''1''"
        "JNumber 0x3FF0000000000000" "[]"]
  by (simp add: sample_defs)

subsection \<open>The reset after each line\<close>

text \<open>
  Claim C10 says that the REPL resets the flags and prompts again after each line,
  with errors or without, so that an error on one line never keeps a later line from
  being interpreted. The reset of lines 50 and 51 and the prompt of line 52 follow the
  call of \<open>run\<close> and are reached only when it returns: on the line \<^verbatim>\<open>throw null\<close> the
  exception leaves the handler, and the declaration on the next line, which the
  tokenizer and the parser accept, is never interpreted.
\<close>

theorem thrown_null_line_stops_later_lines:
  "feed_lines (sample_host [] []) [''throw null'', ''var x = 1;''] (new_MiniJSEngine (sample_host [] [])) =
     Raised (TypeError_reading ''null'')
       \<lparr>interpreter = [], hadError = False, hadRuntimeError = False,
         trace = [Tokenizer_run ''throw null'', Parser_run ''throw null'',
                  Interpret_run ''throw null'']\<rparr> \<and>
   tokenize (sample_host [] []) ''var x = 1;'' = ([], Inr ''var x = 1;'') \<and>
   parse (sample_host [] []) ''var x = 1;'' = ([], Inr ''var x = 1;'') \<and>
   uncaught (main (sample_host [] [''throw null'', ''var x = 1;''])) =
     Some (TypeError_reading ''null'') \<and>
   interpreted (trace (state_of (main (sample_host [] [''throw null'', ''var x = 1;''])))) =
     [''throw null'']"
  by (simp add: main_def runPrompt_def on_line_def on_close_def run_unfold sample_defs emit_def
      trim_def is_white_space_def)

text \<open>
  Claim C10, amended. Whenever the handler of a REPL line returns, whatever the line was
  and whatever the flags were before it, \<open>hadError\<close> and \<open>hadRuntimeError\<close> are both down
  and the prompt is the last step made. The handler does return, on every line other
  than \<^verbatim>\<open>exit\<close> and \<^verbatim>\<open>quit\<close> on which the collaborators come back (what they throw has a
  message that can be read, and the interpreter, where it is called, returns or
  throws). Hence, from an engine whose \<open>hadError\<close> is down, after any earlier lines of
  that kind, with errors or without, the REPL is waiting with \<open>hadError\<close> down, and a
  line that the tokenizer and the parser accept is handed to the interpreter.
\<close>

theorem repl_line_resets_error_flags:
  "(\<forall>s'. on_line h line s = Returned s' \<longrightarrow>
      \<not> hadError s' \<and> \<not> hadRuntimeError s' \<and> last (trace s') = Prompt) \<and>
   (trim line \<noteq> ''exit'' \<and> trim line \<noteq> ''quit'' \<and>
    stages_come_back h (hadError s) (interpreter s) line \<longrightarrow>
      (\<exists>s'. on_line h line s = Returned s' \<and>
         \<not> hadError s' \<and> \<not> hadRuntimeError s' \<and> last (trace s') = Prompt)) \<and>
   (\<forall>lexical tokens syntactic statements.
      \<not> hadError s \<and> lines_come_back h (interpreter s) earlier \<and>
      trim line \<noteq> ''exit'' \<and> trim line \<noteq> ''quit'' \<and>
      tokenize h line = (lexical, Inr tokens) \<and> parse h tokens = (syntactic, Inr statements) \<longrightarrow>
      (\<exists>s1. feed_lines h earlier s = Returned s1 \<and> \<not> hadError s1 \<and>
         interpreted (trace (state_of (feed_lines h (earlier @ [line]) s))) =
           interpreted (trace s1) @ [statements]))"
proof (intro conjI)
  show "\<forall>s'. on_line h line s = Returned s' \<longrightarrow>
      \<not> hadError s' \<and> \<not> hadRuntimeError s' \<and> last (trace s') = Prompt"
    by (auto simp add: on_line_def on_close_def emit_simps split: if_splits control.splits)
next
  show "trim line \<noteq> ''exit'' \<and> trim line \<noteq> ''quit'' \<and>
    stages_come_back h (hadError s) (interpreter s) line \<longrightarrow>
      (\<exists>s'. on_line h line s = Returned s' \<and>
         \<not> hadError s' \<and> \<not> hadRuntimeError s' \<and> last (trace s') = Prompt)"
    using on_line_comes_back [of line h s] by blast
next
  show "\<forall>lexical tokens syntactic statements.
      \<not> hadError s \<and> lines_come_back h (interpreter s) earlier \<and>
      trim line \<noteq> ''exit'' \<and> trim line \<noteq> ''quit'' \<and>
      tokenize h line = (lexical, Inr tokens) \<and> parse h tokens = (syntactic, Inr statements) \<longrightarrow>
      (\<exists>s1. feed_lines h earlier s = Returned s1 \<and> \<not> hadError s1 \<and>
         interpreted (trace (state_of (feed_lines h (earlier @ [line]) s))) =
           interpreted (trace s1) @ [statements])"
  proof (intro allI impI)
    fix lexical tokens syntactic statements
    assume a: "\<not> hadError s \<and> lines_come_back h (interpreter s) earlier \<and>
      trim line \<noteq> ''exit'' \<and> trim line \<noteq> ''quit'' \<and>
      tokenize h line = (lexical, Inr tokens) \<and> parse h tokens = (syntactic, Inr statements)"
    then obtain s1 where
      waiting: "feed_lines h earlier s = Returned s1" and clean: "\<not> hadError s1"
      using feed_lines_come_back [of s h earlier] by blast
    from waiting have "feed_lines h (earlier @ [line]) s = feed_lines h [line] s1"
      by (simp add: feed_lines_append)
    moreover have "state_of (feed_lines h [line] s1) = state_of (on_line h line s1)"
      by (cases "on_line h line s1") simp_all
    ultimately have "interpreted (trace (state_of (feed_lines h (earlier @ [line]) s))) =
        interpreted (trace s1) @ [statements]"
      using a clean on_line_interprets_valid_line [of s1 line h lexical tokens syntactic statements]
      by simp
    with waiting clean show "\<exists>s1. feed_lines h earlier s = Returned s1 \<and> \<not> hadError s1 \<and>
         interpreted (trace (state_of (feed_lines h (earlier @ [line]) s))) =
           interpreted (trace s1) @ [statements]"
      by blast
  qed
qed

text \<open>
  Three lines with errors (thrown by the tokenizer, by the parser and by the
  interpreter), then a declaration: the declaration is interpreted.
\<close>

theorem repl_line_resets_error_flags_witness:
  "trim ''x @'' \<noteq> ''exit'' \<and> trim ''x @'' \<noteq> ''quit'' \<and>
   stages_come_back (sample_host [] []) (hadError (new_MiniJSEngine (sample_host [] [])))
     (interpreter (new_MiniJSEngine (sample_host [] []))) ''x @'' \<and>
   on_line (sample_host [] []) ''x @'' (new_MiniJSEngine (sample_host [] [])) =
     Returned \<lparr>interpreter = [], hadError = False, hadRuntimeError = False,
       trace = [Tokenizer_run ''x @'', Console_error ''Error: Unexpected character: @'', Prompt]\<rparr> \<and>
   \<not> hadError (new_MiniJSEngine (sample_host [] [])) \<and>
   lines_come_back (sample_host [] []) (interpreter (new_MiniJSEngine (sample_host [] [])))
     [''x @'', ''var x = ;'', ''x''] \<and>
   feed_lines (sample_host [] []) [''x @'', ''var x = ;'', ''x''] (new_MiniJSEngine (sample_host [] [])) =
     Returned \<lparr>interpreter = [], hadError = False, hadRuntimeError = False,
       trace = [Tokenizer_run ''x @'', Console_error ''Error: Unexpected character: @'', Prompt,
                Tokenizer_run ''var x = ;'', Parser_run ''var x = ;'',
                Console_error ''Error: Expect expression.'', Prompt,
                Tokenizer_run ''x'', Parser_run ''x'', Interpret_run ''x'',
                Console_error ''Error: Undefined variable x'', Prompt]\<rparr> \<and>
   trim ''var x = 1;'' \<noteq> ''exit'' \<and> trim ''var x = 1;'' \<noteq> ''quit'' \<and>
   tokenize (sample_host [] []) ''var x = 1;'' = ([], Inr ''var x = 1;'') \<and>
   parse (sample_host [] []) ''var x = 1;'' = ([], Inr ''var x = 1;'') \<and>
   interpreted (trace (state_of (feed_lines (sample_host [] [])
       ([''x @'', ''var x = ;'', ''x''] @ [''var x = 1;'']) (new_MiniJSEngine (sample_host [] []))))) =
     [''x'', ''var x = 1;'']"
proof -
  let ?h = "sample_host [] []"
  let ?s = "new_MiniJSEngine ?h"
  let ?earlier = "[''x @'', ''var x = ;'', ''x'']"
  let ?after = "\<lparr>interpreter = [], hadError = False, hadRuntimeError = False,
       trace = [Tokenizer_run ''x @'', Console_error ''Error: Unexpected character: @'', Prompt,
                Tokenizer_run ''var x = ;'', Parser_run ''var x = ;'',
                Console_error ''Error: Expect expression.'', Prompt,
                Tokenizer_run ''x'', Parser_run ''x'', Interpret_run ''x'',
                Console_error ''Error: Undefined variable x'', Prompt]\<rparr>"
  note c = repl_line_resets_error_flags
  have pre1: "trim ''x @'' \<noteq> ''exit'' \<and> trim ''x @'' \<noteq> ''quit'' \<and>
      stages_come_back ?h (hadError ?s) (interpreter ?s) ''x @''"
    by (simp add: stages_come_back_def sample_defs trim_def is_white_space_def)
  have one: "on_line ?h ''x @'' ?s =
     Returned \<lparr>interpreter = [], hadError = False, hadRuntimeError = False,
       trace = [Tokenizer_run ''x @'', Console_error ''Error: Unexpected character: @'', Prompt]\<rparr>"
    by (simp add: on_line_def run_unfold sample_defs emit_def trim_def is_white_space_def)
  from c [of ?h "''x @''" ?s "[]", THEN conjunct2, THEN conjunct1, rule_format, OF pre1]
  have survives: "\<exists>s'. on_line ?h ''x @'' ?s = Returned s' \<and>
      \<not> hadError s' \<and> \<not> hadRuntimeError s' \<and> last (trace s') = Prompt" .
  have pre2: "\<not> hadError ?s \<and> lines_come_back ?h (interpreter ?s) ?earlier \<and>
      trim ''var x = 1;'' \<noteq> ''exit'' \<and> trim ''var x = 1;'' \<noteq> ''quit'' \<and>
      tokenize ?h ''var x = 1;'' = ([], Inr ''var x = 1;'') \<and>
      parse ?h ''var x = 1;'' = ([], Inr ''var x = 1;'')"
    by (simp add: stages_come_back_def sample_defs trim_def is_white_space_def)
  have earlier: "feed_lines ?h ?earlier ?s = Returned ?after"
    by (simp add: on_line_def run_unfold sample_defs emit_def trim_def is_white_space_def)
  from c [of ?h "''var x = 1;''" ?s ?earlier, THEN conjunct2, THEN conjunct2, rule_format, OF pre2]
    earlier
  have later: "interpreted (trace (state_of (feed_lines ?h (?earlier @ [''var x = 1;'']) ?s))) =
      [''x'', ''var x = 1;'']"
    by auto
  from pre1 one pre2 earlier later survives show ?thesis
    by (elim conjE exE, intro conjI) assumption+
qed

end
